theory Spec2Isabelle
  imports Complex_Main
begin

section \<open>Data model\<close>

text \<open>
  The bid-ingestion pipeline of the auction house: entity \<open>bid_entity\<close>, use case
  \<open>bid_usecase\<close> (the aggregator goroutine and \<open>CreateBid\<close>) and repository
  \<open>bid\<close> (\<open>CreateBidBatch\<close> with its two cache maps).

  \<open>time.Time\<close> and \<open>time.Duration\<close> are integers counting nanoseconds;
  \<open>t.After(u)\<close> is \<open>u < t\<close>, \<open>t.Add(d)\<close> is \<open>t + d\<close> and \<open>t.Unix()\<close> is
  \<open>t div 10^9\<close>. \<open>float64\<close> amounts are real numbers: the JSON decoder in front of
  \<open>CreateBid\<close> produces no NaN and no infinity.
\<close>

type_synonym time = int
type_synonym duration = int

text \<open>\<open>type AuctionStatus int\<close> with \<open>Active = iota\<close>, \<open>Completed\<close>: any int can be stored.\<close>

type_synonym AuctionStatus = int

definition Active :: AuctionStatus where
  "Active = 0"

definition Completed :: AuctionStatus where
  "Completed = 1"

datatype InternalError = InternalError (Message: string) (Err: string)

definition NewBadRequestError :: "string \<Rightarrow> InternalError" where
  "NewBadRequestError message = InternalError message ''bad_request''"

definition NewNotFoundError :: "string \<Rightarrow> InternalError" where
  "NewNotFoundError message = InternalError message ''not_found''"

record Bid =
  Id :: string
  UserId :: string
  AuctionId :: string
  Amount :: real
  Timestamp :: time

text \<open>\<open>BidEntityMongo\<close>: the stored document; its timestamp is in seconds.\<close>

record BidEntityMongo =
  mongo_Id :: string
  mongo_UserId :: string
  mongo_AuctionId :: string
  mongo_Amount :: real
  mongo_Timestamp :: int

text \<open>
  \<open>auction_entity.Auction\<close> as \<open>FindAuctionById\<close> returns it. Only the identifier, the
  status and the start time are read by the pipeline; the descriptive fields (product
  name, category, description, condition) are left out.
\<close>

record Auction =
  auction_Id :: string
  Status :: AuctionStatus
  auction_Timestamp :: time

text \<open>
  What one per-bid goroutine gets from outside the repository while it runs: the answer
  of \<open>AuctionRepository.FindAuctionById\<close>, the answer of \<open>Collection.InsertOne\<close>
  (\<open>Some err\<close> when the driver reports an error) and the reading of \<open>time.Now()\<close>.
\<close>

record env =
  FindAuctionById :: "string \<Rightarrow> InternalError + Auction"
  InsertOne :: "BidEntityMongo \<Rightarrow> string option"
  Now :: time

text \<open>The calls a task makes to its collaborators and to the logger, in order.\<close>

datatype effect =
    FindAuctionByIdCall string
  | InsertOneCall BidEntityMongo
  | LoggerError string

text \<open>
  \<open>BidRepository\<close>: the two cache maps, the configured auction duration, the documents
  the \<open>bids\<close> collection has accepted, and the record of the calls made so far. The two
  mutexes only make each map access atomic; they show in the granularity of \<open>task_step\<close>.
\<close>

record BidRepository =
  auctionStatusMap :: "string \<rightharpoonup> AuctionStatus"
  auctionEndTimeMap :: "string \<rightharpoonup> time"
  auctionInterval :: duration
  Collection :: "BidEntityMongo list"
  calls :: "effect list"

definition NewBidRepository :: "duration \<Rightarrow> BidRepository" where
  "NewBidRepository interval =
     \<lparr>auctionStatusMap = Map.empty, auctionEndTimeMap = Map.empty,
      auctionInterval = interval, Collection = [], calls = []\<rparr>"

section \<open>The per-bid task of CreateBidBatch\<close>

text \<open>The return statement by which the goroutine of one bid ends.\<close>

datatype outcome =
    RejectedClosed
  | Inserted
  | InsertFailed
  | LookupFailed
  | NotActive

definition toMongo :: "Bid \<Rightarrow> BidEntityMongo" where
  "toMongo bidValue =
     \<lparr>mongo_Id = Id bidValue, mongo_UserId = UserId bidValue,
      mongo_AuctionId = AuctionId bidValue, mongo_Amount = Amount bidValue,
      mongo_Timestamp = Timestamp bidValue div 1000000000\<rparr>"

text \<open>\<open>bd.Collection.InsertOne(ctx, bidEntityMongo)\<close> followed by its error check.\<close>

definition insert_bid :: "env \<Rightarrow> string \<Rightarrow> BidEntityMongo \<Rightarrow> BidRepository \<Rightarrow> outcome \<times> BidRepository" where
  "insert_bid e msg bidEntityMongo bd =
     (case InsertOne e bidEntityMongo of
        Some err \<Rightarrow>
          (InsertFailed, bd\<lparr>calls := calls bd @ [InsertOneCall bidEntityMongo, LoggerError msg]\<rparr>)
      | None \<Rightarrow>
          (Inserted, bd\<lparr>Collection := Collection bd @ [bidEntityMongo],
                         calls := calls bd @ [InsertOneCall bidEntityMongo]\<rparr>))"

text \<open>
  The body of the goroutine that \<open>CreateBidBatch\<close> starts for one bid
  (\<open>create_bid.go\<close>, lines 71 to 143), run from its first statement to its return
  with no other task in between: the two cache reads, then the hit branch (lines 98 to
  111) or the miss branch (lines 113 to 141).
\<close>

definition bid_task :: "env \<Rightarrow> Bid \<Rightarrow> BidRepository \<Rightarrow> outcome \<times> BidRepository" where
  "bid_task e bidValue bd =
     (let statusRead = auctionStatusMap bd (AuctionId bidValue);
          endTimeRead = auctionEndTimeMap bd (AuctionId bidValue);
          bidEntityMongo = toMongo bidValue
      in case (endTimeRead, statusRead) of
           (Some auctionEndTime, Some auctionStatus) \<Rightarrow>
             if auctionStatus = Completed \<or> auctionEndTime < Now e
             then (RejectedClosed, bd)
             else insert_bid e ''Error trying to insert bid'' bidEntityMongo bd
         | _ \<Rightarrow>
             (let bd0 = bd\<lparr>calls := calls bd @ [FindAuctionByIdCall (AuctionId bidValue)]\<rparr>
              in case FindAuctionById e (AuctionId bidValue) of
                   Inl err \<Rightarrow>
                     (LookupFailed,
                      bd0\<lparr>calls := calls bd0 @
                         [LoggerError (''error trying to find auction by id '' @ AuctionId bidValue)]\<rparr>)
                 | Inr auctionEntity \<Rightarrow>
                     if Status auctionEntity \<noteq> Active
                     then (NotActive,
                           bd0\<lparr>calls := calls bd0 @
                              [LoggerError (''auction with id '' @ AuctionId bidValue @ '' is not open'')]\<rparr>)
                     else
                       (let bd1 = bd0\<lparr>auctionStatusMap :=
                                   (auctionStatusMap bd0)(AuctionId bidValue \<mapsto> Status auctionEntity)\<rparr>;
                            bd2 = bd1\<lparr>auctionEndTimeMap :=
                                   (auctionEndTimeMap bd1)(AuctionId bidValue \<mapsto>
                                      auction_Timestamp auctionEntity + auctionInterval bd1)\<rparr>
                        in insert_bid e ''error trying to insert bid'' bidEntityMongo bd2)))"

subsection \<open>The same body, one critical section or collaborator call at a time\<close>

text \<open>
  The goroutines of a batch run concurrently. A task is interrupted only between two of
  its accesses to shared state, so its position is one of: before the status read, before
  the end-time read (holding the status it read), before the hit/miss decision (holding
  both reads), before the status write, before the end-time write (both holding the
  auction it looked up), before the final insert, or returned.
\<close>

datatype task =
    AtStatusRead Bid
  | AtEndTimeRead Bid "AuctionStatus option"
  | AtDecision Bid "AuctionStatus option" "time option"
  | AtStatusWrite Bid Auction
  | AtEndTimeWrite Bid Auction
  | AtInsert Bid
  | Done outcome

fun task_step :: "env \<Rightarrow> task \<Rightarrow> BidRepository \<Rightarrow> task \<times> BidRepository" where
  "task_step e (AtStatusRead b) bd = (AtEndTimeRead b (auctionStatusMap bd (AuctionId b)), bd)"
| "task_step e (AtEndTimeRead b s) bd = (AtDecision b s (auctionEndTimeMap bd (AuctionId b)), bd)"
| "task_step e (AtDecision b (Some auctionStatus) (Some auctionEndTime)) bd =
     (if auctionStatus = Completed \<or> auctionEndTime < Now e
      then (Done RejectedClosed, bd)
      else (let (r, bd') = insert_bid e ''Error trying to insert bid'' (toMongo b) bd
            in (Done r, bd')))"
| "task_step e (AtDecision b s t) bd =
     (let bd0 = bd\<lparr>calls := calls bd @ [FindAuctionByIdCall (AuctionId b)]\<rparr>
      in case FindAuctionById e (AuctionId b) of
           Inl err \<Rightarrow>
             (Done LookupFailed,
              bd0\<lparr>calls := calls bd0 @
                 [LoggerError (''error trying to find auction by id '' @ AuctionId b)]\<rparr>)
         | Inr auctionEntity \<Rightarrow>
             if Status auctionEntity \<noteq> Active
             then (Done NotActive,
                   bd0\<lparr>calls := calls bd0 @
                      [LoggerError (''auction with id '' @ AuctionId b @ '' is not open'')]\<rparr>)
             else (AtStatusWrite b auctionEntity, bd0))"
| "task_step e (AtStatusWrite b a) bd =
     (AtEndTimeWrite b a, bd\<lparr>auctionStatusMap := (auctionStatusMap bd)(AuctionId b \<mapsto> Status a)\<rparr>)"
| "task_step e (AtEndTimeWrite b a) bd =
     (AtInsert b,
      bd\<lparr>auctionEndTimeMap :=
            (auctionEndTimeMap bd)(AuctionId b \<mapsto> auction_Timestamp a + auctionInterval bd)\<rparr>)"
| "task_step e (AtInsert b) bd =
     (let (r, bd') = insert_bid e ''error trying to insert bid'' (toMongo b) bd in (Done r, bd'))"
| "task_step e (Done r) bd = (Done r, bd)"

fun is_Done :: "task \<Rightarrow> bool" where
  "is_Done (Done r) = True"
| "is_Done t = False"


subsection \<open>The batch: fan-out, interleaving, barrier\<close>

text \<open>
  A schedule says which goroutine of the batch moves next and what its collaborators
  answer at that step. \<open>wg.Wait()\<close> lets \<open>CreateBidBatch\<close> return only when every task
  has called \<open>wg.Done()\<close>: under a schedule that leaves a task unfinished the call has
  not returned, which is the value \<open>None\<close>. When it returns, it returns \<open>nil\<close>.
\<close>

type_synonym schedule = "(nat \<times> env) list"

definition pool_step :: "nat \<times> env \<Rightarrow> task list \<times> BidRepository \<Rightarrow> task list \<times> BidRepository" where
  "pool_step ie p =
     (case ie of (i, e) \<Rightarrow> case p of (ts, bd) \<Rightarrow>
        if i < length ts
        then (let (t', bd') = task_step e (ts ! i) bd in (ts[i := t'], bd'))
        else (ts, bd))"

definition run_pool :: "schedule \<Rightarrow> task list \<times> BidRepository \<Rightarrow> task list \<times> BidRepository" where
  "run_pool sched p = fold pool_step sched p"

definition CreateBidBatch ::
  "schedule \<Rightarrow> Bid list \<Rightarrow> BidRepository \<Rightarrow> (InternalError option \<times> BidRepository) option" where
  "CreateBidBatch sched bidEntities bd =
     (case run_pool sched (map AtStatusRead bidEntities, bd) of (ts, bd') \<Rightarrow>
        if list_all is_Done ts then Some (None, bd') else None)"

text \<open>
  The schedule that runs the tasks one after the other in the order of the batch, the
  \<open>i\<close>-th with the answers \<open>envs i\<close>; no task needs more than six steps.
\<close>

definition sequential :: "(nat \<Rightarrow> env) \<Rightarrow> nat \<Rightarrow> schedule" where
  "sequential envs n = concat (map (\<lambda>i. replicate 6 (i, envs i)) [0..<n])"

section \<open>The use case: ingestion gateway, queue and aggregator\<close>

record BidInputDTO =
  dto_UserId :: string
  dto_AuctionId :: string
  dto_Amount :: real

text \<open>
  \<open>Validate\<close> and \<open>CreateBid\<close> of \<open>bid_entity\<close>. \<open>uuid.Validate\<close> belongs to the
  library \<open>google/uuid\<close> and is a parameter; \<open>uuid.New().String()\<close> and \<open>time.Now()\<close>
  are what the call reads from outside.
\<close>

definition Validate :: "(string \<Rightarrow> bool) \<Rightarrow> Bid \<Rightarrow> InternalError option" where
  "Validate uuid_Validate b =
     (if \<not> uuid_Validate (UserId b) then Some (NewBadRequestError ''user id is not a valid id'')
      else if \<not> uuid_Validate (AuctionId b) then Some (NewBadRequestError ''auction id is not a valid id'')
      else if Amount b \<le> 0 then Some (NewBadRequestError ''amount must be greater than 0'')
      else None)"

record submit_env =
  uuid_New :: string
  time_Now :: time

definition bid_entity_CreateBid ::
  "(string \<Rightarrow> bool) \<Rightarrow> submit_env \<Rightarrow> string \<Rightarrow> string \<Rightarrow> real \<Rightarrow> InternalError + Bid" where
  "bid_entity_CreateBid uuid_Validate se userId auctionId amount =
     (let bid = \<lparr>Id = uuid_New se, UserId = userId, AuctionId = auctionId,
                 Amount = amount, Timestamp = time_Now se\<rparr>
      in case Validate uuid_Validate bid of Some err \<Rightarrow> Inl err | None \<Rightarrow> Inr bid)"

text \<open>
  \<open>chan bid_entity.Bid\<close> made with a capacity: the buffered bids in arrival order, the
  capacity, and whether \<open>close\<close> has been called. A call into the runtime returns,
  blocks, or panics.
\<close>

record chan =
  buf :: "Bid list"
  cap :: int
  closed :: bool

datatype 'a go = Returns 'a | Blocks | Panics string

definition send :: "Bid \<Rightarrow> chan \<Rightarrow> chan go" where
  "send b ch =
     (if closed ch then Panics ''send on closed channel''
      else if int (length (buf ch)) < cap ch then Returns (ch\<lparr>buf := buf ch @ [b]\<rparr>)
      else Blocks)"

text \<open>\<open>v, ok := <-ch\<close>: \<open>Some v\<close> is \<open>ok = true\<close>, \<open>None\<close> is \<open>ok = false\<close>.\<close>

definition recv :: "chan \<Rightarrow> (Bid option \<times> chan) go" where
  "recv ch =
     (case buf ch of
        b # bs \<Rightarrow> Returns (Some b, ch\<lparr>buf := bs\<rparr>)
      | [] \<Rightarrow> if closed ch then Returns (None, ch) else Blocks)"

definition close :: "chan \<Rightarrow> chan go" where
  "close ch = (if closed ch then Panics ''close of closed channel'' else Returns (ch\<lparr>closed := True\<rparr>))"

text \<open>
  \<open>BidUseCase\<close>. The timer is the time left until it expires: \<open>Reset d\<close> sets it to
  \<open>d\<close> and drops an expiry that was not received yet (timers as from Go 1.23, the
  version of the Dockerfile); it has expired when nothing is left.
\<close>

record BidUseCase =
  Repository :: BidRepository
  timer :: duration
  maxBatchSize :: int
  batchInsertInterval :: duration
  bidChannel :: chan

text \<open>
  \<open>CreateBid\<close> of the use case (\<open>create_bid_usecase.go\<close>, lines 121 to 133):
  build and validate, then send on the channel.
\<close>

definition CreateBid ::
  "(string \<Rightarrow> bool) \<Rightarrow> submit_env \<Rightarrow> BidInputDTO \<Rightarrow> BidUseCase \<Rightarrow> (InternalError option \<times> BidUseCase) go" where
  "CreateBid uuid_Validate se bidInputDto bu =
     (case bid_entity_CreateBid uuid_Validate se
             (dto_UserId bidInputDto) (dto_AuctionId bidInputDto) (dto_Amount bidInputDto) of
        Inl err \<Rightarrow> Returns (Some err, bu)
      | Inr bidEntity \<Rightarrow>
          (case send bidEntity (bidChannel bu) of
             Returns ch \<Rightarrow> Returns (None, bu\<lparr>bidChannel := ch\<rparr>)
           | Blocks \<Rightarrow> Blocks
           | Panics m \<Rightarrow> Panics m))"

text \<open>
  The process: the use case, the package variable \<open>bidBatch\<close>, the state of the
  goroutine started by \<open>triggerCreateRoutine\<close>, what the calls of \<open>CreateBid\<close> have
  answered so far, and whether the process has ended.
\<close>

datatype routine = Running | Returned | Crashed string

datatype response = Answered "InternalError option" | Recovered string

record process =
  bu :: BidUseCase
  bidBatch :: "Bid list"
  goroutine :: routine
  responses :: "response list"
  exited :: bool

text \<open>
  \<open>NewBidUseCase\<close>: the channel gets the capacity \<open>maxBatchSize\<close> (\<open>make\<close> panics on a
  negative one, \<open>None\<close>), the timer is started and the goroutine launched.
\<close>

definition NewBidUseCase :: "int \<Rightarrow> duration \<Rightarrow> BidRepository \<Rightarrow> process option" where
  "NewBidUseCase maxBatch interval bidRepository =
     (if maxBatch < 0 then None
      else Some \<lparr>bu = \<lparr>Repository = bidRepository, timer = interval, maxBatchSize = maxBatch,
                        batchInsertInterval = interval,
                        bidChannel = \<lparr>buf = [], cap = maxBatch, closed = False\<rparr>\<rparr>,
                  bidBatch = [], goroutine = Running, responses = [], exited = False\<rparr>)"

text \<open>
  \<open>bu.BidRepository.CreateBidBatch(ctx, bidBatch)\<close> as the loop calls it: a plain call,
  so the loop goes on once it has returned; an error would be logged under the tag of
  the call site.
\<close>

definition flush :: "string \<Rightarrow> schedule \<Rightarrow> process \<Rightarrow> process option" where
  "flush tag sched p =
     (case CreateBidBatch sched (bidBatch p) (Repository (bu p)) of
        None \<Rightarrow> None
      | Some (err, bd) \<Rightarrow>
          Some (p\<lparr>bu := (bu p)\<lparr>Repository :=
                   (case err of
                      None \<Rightarrow> bd
                    | Some e \<Rightarrow> bd\<lparr>calls := calls bd @
                        [LoggerError (tag @ '' error trying to create bid batch on goroutine'')]\<rparr>)\<rparr>\<rparr>))"

definition reset_batch :: "process \<Rightarrow> process" where
  "reset_batch p = p\<lparr>bidBatch := [], bu := (bu p)\<lparr>timer := batchInsertInterval (bu p)\<rparr>\<rparr>"

text \<open>\<open>defer close(bu.bidChannel)\<close>, run when the goroutine's function returns.\<close>

definition deferred_close :: "process \<Rightarrow> process" where
  "deferred_close p =
     (case close (bidChannel (bu p)) of
        Returns ch \<Rightarrow> p\<lparr>bu := (bu p)\<lparr>bidChannel := ch\<rparr>, goroutine := Returned\<rparr>
      | Panics m \<Rightarrow> p\<lparr>goroutine := Crashed m, exited := True\<rparr>
      | Blocks \<Rightarrow> p)"

text \<open>
  One turn of the \<open>for { select { ... } }\<close> loop of \<open>triggerCreateRoutine\<close>
  (\<open>create_bid_usecase.go\<close>, lines 73 to 115). The case that is taken is chosen by
  the runtime among the ready ones; the schedule is the one of the flush, if the turn
  flushes. \<open>None\<close>: the chosen case is not ready, or the flush has not returned.
\<close>

datatype ready = RecvCase schedule | TimerCase schedule

definition iteration :: "ready \<Rightarrow> process \<Rightarrow> process option" where
  "iteration r p =
     (case r of
        RecvCase sched \<Rightarrow>
          (case recv (bidChannel (bu p)) of
             Blocks \<Rightarrow> None
           | Panics m \<Rightarrow> None
           | Returns (None, ch) \<Rightarrow>
               (case (if length (bidBatch p) > 0 then flush ''[A]'' sched p else Some p) of
                  None \<Rightarrow> None
                | Some p' \<Rightarrow> Some (deferred_close p'))
           | Returns (Some bidEntity, ch) \<Rightarrow>
               (let p1 = p\<lparr>bu := (bu p)\<lparr>bidChannel := ch\<rparr>, bidBatch := bidBatch p @ [bidEntity]\<rparr>
                in if maxBatchSize (bu p1) \<le> int (length (bidBatch p1))
                   then (case flush ''[B]'' sched p1 of
                           None \<Rightarrow> None
                         | Some p2 \<Rightarrow> Some (reset_batch p2))
                   else Some p1))
      | TimerCase sched \<Rightarrow>
          if timer (bu p) \<le> 0
          then (case flush ''[C]'' sched p of
                  None \<Rightarrow> None
                | Some p2 \<Rightarrow> Some (reset_batch p2))
          else None)"

text \<open>
  What can happen to the process. \<open>Submit\<close>: a request reaches \<open>CreateBid\<close> and the
  call returns (gin's recovery answers a panic). \<open>Handoff\<close>: a send that finds no room
  in the buffer meets the loop waiting in its receive case, which takes the bid at
  once. \<open>Select\<close>: the loop takes a turn. \<open>Elapse\<close>: time passes. \<open>Exit\<close>: \<open>main\<close>
  returns or the process is killed; \<open>main\<close> closes nothing and waits for nothing.
\<close>

datatype event =
    Submit submit_env BidInputDTO
  | Handoff submit_env BidInputDTO schedule
  | Select ready
  | Elapse duration
  | Exit

definition step :: "(string \<Rightarrow> bool) \<Rightarrow> event \<Rightarrow> process \<Rightarrow> process option" where
  "step uuid_Validate ev p =
     (if exited p then None
      else case ev of
        Submit se i \<Rightarrow>
          (case CreateBid uuid_Validate se i (bu p) of
             Returns (r, bu') \<Rightarrow> Some (p\<lparr>bu := bu', responses := responses p @ [Answered r]\<rparr>)
           | Blocks \<Rightarrow> None
           | Panics m \<Rightarrow> Some (p\<lparr>responses := responses p @ [Recovered m]\<rparr>))
      | Handoff se i sched \<Rightarrow>
          (case bid_entity_CreateBid uuid_Validate se (dto_UserId i) (dto_AuctionId i) (dto_Amount i) of
             Inl err \<Rightarrow> None
           | Inr bidEntity \<Rightarrow>
               if goroutine p = Running \<and> \<not> closed (bidChannel (bu p)) \<and> buf (bidChannel (bu p)) = []
                  \<and> cap (bidChannel (bu p)) \<le> 0
               then (case iteration (RecvCase sched)
                            (p\<lparr>bu := (bu p)\<lparr>bidChannel := (bidChannel (bu p))\<lparr>buf := [bidEntity]\<rparr>\<rparr>\<rparr>) of
                       None \<Rightarrow> None
                     | Some p' \<Rightarrow> Some (p'\<lparr>responses := responses p' @ [Answered None]\<rparr>))
               else None)
      | Select r \<Rightarrow> if goroutine p = Running then iteration r p else None
      | Elapse d \<Rightarrow> if 0 \<le> d then Some (p\<lparr>bu := (bu p)\<lparr>timer := timer (bu p) - d\<rparr>\<rparr>) else None
      | Exit \<Rightarrow> Some (p\<lparr>exited := True\<rparr>))"

fun run :: "(string \<Rightarrow> bool) \<Rightarrow> event list \<Rightarrow> process \<Rightarrow> process option" where
  "run uuid_Validate [] p = Some p"
| "run uuid_Validate (ev # evs) p =
     (case step uuid_Validate ev p of None \<Rightarrow> None | Some p' \<Rightarrow> run uuid_Validate evs p')"

section \<open>Auxiliary notions for the proofs\<close>



text \<open>The number of \<open>FindAuctionById\<close> calls made for one auction.\<close>

definition lookups :: "string \<Rightarrow> effect list \<Rightarrow> nat" where
  "lookups auctionId cs = count_list cs (FindAuctionByIdCall auctionId)"

text \<open>Both cache maps have an entry for the auction.\<close>

definition cached :: "string \<Rightarrow> BidRepository \<Rightarrow> bool" where
  "cached auctionId bd =
     (auctionStatusMap bd auctionId \<noteq> None \<and> auctionEndTimeMap bd auctionId \<noteq> None)"



text \<open>Every status in the cache is \<open>Active\<close>; so is every status a task holds.\<close>

definition status_cache_Active :: "BidRepository \<Rightarrow> bool" where
  "status_cache_Active bd = (\<forall>s \<in> ran (auctionStatusMap bd). s = Active)"

fun holds_Active :: "task \<Rightarrow> bool" where
  "holds_Active (AtEndTimeRead b (Some s)) = (s = Active)"
| "holds_Active (AtDecision b (Some s) t) = (s = Active)"
| "holds_Active (AtStatusWrite b a) = (Status a = Active)"
| "holds_Active t = True"

text \<open>The channel is open and the loop of the goroutine has not returned.\<close>

definition loop_alive :: "process \<Rightarrow> bool" where
  "loop_alive p = (\<not> closed (bidChannel (bu p)) \<and> goroutine p = Running)"

text \<open>The process after the loop has received \<open>b\<close> and appended it to the batch.\<close>

definition enqueue_batch :: "Bid \<Rightarrow> Bid list \<Rightarrow> process \<Rightarrow> process" where
  "enqueue_batch b rest p =
     p\<lparr>bu := (bu p)\<lparr>bidChannel := (bidChannel (bu p))\<lparr>buf := rest\<rparr>\<rparr>, bidBatch := bidBatch p @ [b]\<rparr>"

definition handed :: "Bid \<Rightarrow> process \<Rightarrow> process" where
  "handed b p = p\<lparr>bu := (bu p)\<lparr>bidChannel := (bidChannel (bu p))\<lparr>buf := [b]\<rparr>\<rparr>\<rparr>"

subsection \<open>Concrete inputs\<close>

text \<open>
  An identifier check standing for \<open>uuid.Validate\<close> (the 36-character form), two
  identifiers, the default durations in nanoseconds, a bid, collaborators that find the
  auction with a given status and start time 0 and accept every insert, collaborators
  that fail, and a repository whose cache knows the auction as open until five minutes.
\<close>

definition example_uuid_Validate :: "string \<Rightarrow> bool" where
  "example_uuid_Validate s = (length s = 36)"

definition example_user :: string where
  "example_user = ''11111111-1111-4111-8111-111111111111''"

definition example_auction :: string where
  "example_auction = ''22222222-2222-4222-8222-222222222222''"

definition five_minutes :: duration where
  "five_minutes = 300000000000"

definition three_minutes :: duration where
  "three_minutes = 180000000000"

definition example_bid :: "time \<Rightarrow> Bid" where
  "example_bid t =
     \<lparr>Id = ''33333333-3333-4333-8333-333333333333'', UserId = example_user,
      AuctionId = example_auction, Amount = 10, Timestamp = t\<rparr>"

definition example_env :: "AuctionStatus \<Rightarrow> time \<Rightarrow> env" where
  "example_env st now =
     \<lparr>FindAuctionById = (\<lambda>auctionId. Inr \<lparr>auction_Id = auctionId, Status = st, auction_Timestamp = 0\<rparr>),
      InsertOne = (\<lambda>doc. None), Now = now\<rparr>"




definition accept_all :: "nat \<Rightarrow> env" where
  "accept_all i = example_env Active 2000"

definition example_cached :: BidRepository where
  "example_cached =
     (NewBidRepository five_minutes)
       \<lparr>auctionStatusMap := [example_auction \<mapsto> Active],
        auctionEndTimeMap := [example_auction \<mapsto> five_minutes]\<rparr>"

definition example_input :: BidInputDTO where
  "example_input = \<lparr>dto_UserId = example_user, dto_AuctionId = example_auction, dto_Amount = 10\<rparr>"

definition example_submit :: submit_env where
  "example_submit = \<lparr>uuid_New = ''33333333-3333-4333-8333-333333333333'', time_Now = 1000\<rparr>"

text \<open>
  A process with the given batch limit (also the capacity of the channel), bids waiting
  in the channel, bids in the current batch and time left on the timer.
\<close>

definition example_process :: "int \<Rightarrow> Bid list \<Rightarrow> Bid list \<Rightarrow> duration \<Rightarrow> process" where
  "example_process maxBatch queued batch left =
     \<lparr>bu = \<lparr>Repository = NewBidRepository five_minutes, timer = left, maxBatchSize = maxBatch,
             batchInsertInterval = three_minutes,
             bidChannel = \<lparr>buf = queued, cap = maxBatch, closed = False\<rparr>\<rparr>,
      bidBatch = batch, goroutine = Running, responses = [], exited = False\<rparr>"

text \<open>A schedule that gives the only task of a batch one step and then stops.\<close>

definition one_step_only :: schedule where
  "one_step_only = [(0, example_env Active 2000)]"


text \<open>The process as \<open>main\<close> builds it, after the given events.\<close>

definition example_run :: "int \<Rightarrow> event list \<Rightarrow> process option" where
  "example_run maxBatch evs =
     (case NewBidUseCase maxBatch three_minutes (NewBidRepository five_minutes) of
        None \<Rightarrow> None
      | Some p \<Rightarrow> run example_uuid_Validate evs p)"

definition example_events :: "event list" where
  "example_events =
     [Submit example_submit example_input, Elapse 5, Select (RecvCase (sequential accept_all 1))]"

definition shutdown_events :: "event list" where
  "shutdown_events = [Submit example_submit example_input, Select (RecvCase []), Exit]"

text \<open>
  A process whose channel has been closed with one bid left in the batch, and one whose
  channel (capacity 1) is full.
\<close>

definition closed_process :: process where
  "closed_process =
     (example_process 5 [] [example_bid 1000] three_minutes)
       \<lparr>bu := (bu (example_process 5 [] [example_bid 1000] three_minutes))
          \<lparr>bidChannel := \<lparr>buf = [], cap = 5, closed = True\<rparr>\<rparr>\<rparr>"

definition full_process :: process where
  "full_process = example_process 1 [example_bid 500] [] three_minutes"

text \<open>What the examples look at in a process.\<close>

definition observe :: "process \<Rightarrow> Bid list \<times> BidEntityMongo list \<times> effect list \<times> bool \<times> routine \<times> bool" where
  "observe p =
     (bidBatch p, Collection (Repository (bu p)), calls (Repository (bu p)),
      closed (bidChannel (bu p)), goroutine p, exited p)"

section \<open>Lemmas\<close>












lemma holds_Active_AtEndTimeRead:
  "holds_Active (AtEndTimeRead b s) \<longleftrightarrow> (\<forall>v. s = Some v \<longrightarrow> v = Active)"
  by (cases s) auto

lemma holds_Active_AtDecision:
  "holds_Active (AtDecision b s t) \<longleftrightarrow> (\<forall>v. s = Some v \<longrightarrow> v = Active)"
  by (cases s) auto


lemma CreateBidBatch_iff:
  "CreateBidBatch sched bids bd =
     (if list_all is_Done (fst (run_pool sched (map AtStatusRead bids, bd)))
      then Some (None, snd (run_pool sched (map AtStatusRead bids, bd))) else None)"
  by (auto simp: CreateBidBatch_def split: prod.splits if_splits)

lemma flush_eq:
  "flush tag sched p =
     (if list_all is_Done (fst (run_pool sched (map AtStatusRead (bidBatch p), Repository (bu p))))
      then Some (p\<lparr>bu := (bu p)\<lparr>Repository :=
                  snd (run_pool sched (map AtStatusRead (bidBatch p), Repository (bu p)))\<rparr>\<rparr>)
      else None)"
  by (simp add: flush_def CreateBidBatch_iff)

lemma status_task_step:
  assumes "status_cache_Active bd" "holds_Active t"
  shows "status_cache_Active (snd (task_step e t bd)) \<and> holds_Active (fst (task_step e t bd))"
  using assms
  by (induction e t bd rule: task_step.induct)
     (auto simp: status_cache_Active_def insert_bid_def Let_def ran_def
                 holds_Active_AtEndTimeRead holds_Active_AtDecision
           split: option.splits sum.splits prod.splits if_splits)

lemma status_pool_step:
  assumes "status_cache_Active bd" "list_all holds_Active ts"
  shows "status_cache_Active (snd (pool_step ie (ts, bd))) \<and> list_all holds_Active (fst (pool_step ie (ts, bd)))"
proof (cases ie)
  case (Pair i e)
  show ?thesis
  proof (cases "i < length ts")
    case True
    then have "holds_Active (ts ! i)" using assms(2) by (simp add: list_all_length)
    from status_task_step[OF assms(1) this, of e] True assms(2) Pair show ?thesis
      by (auto simp: pool_step_def case_prod_beta list_all_length nth_list_update)
  next
    case False
    with assms Pair show ?thesis by (simp add: pool_step_def)
  qed
qed

lemma status_run_pool:
  "status_cache_Active bd \<Longrightarrow> list_all holds_Active ts \<Longrightarrow>
   status_cache_Active (snd (run_pool sched (ts, bd))) \<and> list_all holds_Active (fst (run_pool sched (ts, bd)))"
proof (induction sched arbitrary: ts bd)
  case Nil
  then show ?case by (simp add: run_pool_def)
next
  case (Cons ie sched)
  obtain ts' bd' where p: "pool_step ie (ts, bd) = (ts', bd')" by (cases "pool_step ie (ts, bd)")
  from status_pool_step[OF Cons.prems, of ie] p
  have "status_cache_Active bd'" "list_all holds_Active ts'" by simp_all
  from Cons.IH[OF this] p show ?case by (simp add: run_pool_def)
qed

lemma holds_Active_fresh: "list_all holds_Active (map AtStatusRead bids)"
  by (simp add: list_all_iff)

lemma status_batch:
  "status_cache_Active bd \<Longrightarrow>
   status_cache_Active (snd (run_pool sched (map AtStatusRead bids, bd)))"
  using status_run_pool[OF _ holds_Active_fresh] by blast

lemma iteration_item:
  "buf (bidChannel (bu p)) = b # rest \<Longrightarrow>
   iteration (RecvCase sched) p =
     (if maxBatchSize (bu p) \<le> int (length (bidBatch p)) + 1
      then (case flush ''[B]'' sched (enqueue_batch b rest p) of
              None \<Rightarrow> None | Some p2 \<Rightarrow> Some (reset_batch p2))
      else Some (enqueue_batch b rest p))"
  by (simp add: iteration_def recv_def enqueue_batch_def Let_def)

lemma iteration_empty_open:
  "buf (bidChannel (bu p)) = [] \<Longrightarrow> \<not> closed (bidChannel (bu p)) \<Longrightarrow>
   iteration (RecvCase sched) p = None"
  by (simp add: iteration_def recv_def)

lemma iteration_timer:
  "iteration (TimerCase sched) p =
     (if timer (bu p) \<le> 0
      then (case flush ''[C]'' sched p of None \<Rightarrow> None | Some p2 \<Rightarrow> Some (reset_batch p2))
      else None)"
  by (simp add: iteration_def)

lemma flush_alive: "flush tag sched p = Some p' \<Longrightarrow> loop_alive p' = loop_alive p"
  by (auto simp: flush_eq loop_alive_def split: if_splits)

lemma flush_status:
  "flush tag sched p = Some p' \<Longrightarrow> status_cache_Active (Repository (bu p)) \<Longrightarrow>
   status_cache_Active (Repository (bu p'))"
  by (auto simp: flush_eq status_batch split: if_splits)

lemma reset_batch_alive [simp]: "loop_alive (reset_batch p) = loop_alive p"
  by (simp add: reset_batch_def loop_alive_def)

lemma reset_batch_Repository [simp]: "Repository (bu (reset_batch p)) = Repository (bu p)"
  by (simp add: reset_batch_def)

lemma enqueue_batch_alive [simp]: "loop_alive (enqueue_batch b rest p) = loop_alive p"
  by (simp add: enqueue_batch_def loop_alive_def)

lemma enqueue_batch_Repository [simp]: "Repository (bu (enqueue_batch b rest p)) = Repository (bu p)"
  by (simp add: enqueue_batch_def)

lemma iteration_alive:
  assumes "loop_alive p" "iteration r p = Some p'"
  shows "loop_alive p'"
proof (cases r)
  case (RecvCase sched)
  show ?thesis
  proof (cases "buf (bidChannel (bu p))")
    case Nil
    with assms RecvCase show ?thesis by (simp add: iteration_empty_open loop_alive_def)
  next
    case (Cons b rest)
    with assms RecvCase show ?thesis
      by (auto simp: iteration_item split: if_splits option.splits dest: flush_alive)
  qed
next
  case (TimerCase sched)
  with assms show ?thesis
    by (auto simp: iteration_timer split: if_splits option.splits dest: flush_alive)
qed

lemma iteration_status:
  assumes "status_cache_Active (Repository (bu p))" "loop_alive p" "iteration r p = Some p'"
  shows "status_cache_Active (Repository (bu p'))"
proof (cases r)
  case (RecvCase sched)
  show ?thesis
  proof (cases "buf (bidChannel (bu p))")
    case Nil
    with assms RecvCase show ?thesis by (simp add: iteration_empty_open loop_alive_def)
  next
    case (Cons b rest)
    have "status_cache_Active (Repository (bu (enqueue_batch b rest p)))" using assms(1) by simp
    with assms RecvCase Cons show ?thesis
      by (auto simp: iteration_item split: if_splits option.splits dest: flush_status)
  qed
next
  case (TimerCase sched)
  with assms show ?thesis
    by (auto simp: iteration_timer split: if_splits option.splits dest: flush_status)
qed

lemma CreateBid_keeps:
  "CreateBid uv se i b = Returns (r, b') \<Longrightarrow>
   closed (bidChannel b') = closed (bidChannel b) \<and> Repository b' = Repository b"
  by (auto simp: CreateBid_def send_def split: sum.splits if_splits go.splits)

lemma handed_alive [simp]: "loop_alive (handed b p) = loop_alive p"
  by (simp add: handed_def loop_alive_def)

lemma handed_Repository [simp]: "Repository (bu (handed b p)) = Repository (bu p)"
  by (simp add: handed_def)

lemma step_Handoff:
  "step uv (Handoff se i sched) p = Some p' \<Longrightarrow>
   \<exists>b q. iteration (RecvCase sched) (handed b p) = Some q \<and>
         p' = q\<lparr>responses := responses q @ [Answered None]\<rparr>"
  by (auto simp: step_def handed_def split: if_splits sum.splits option.splits)

lemma step_alive:
  assumes "loop_alive p" "step uv ev p = Some p'"
  shows "loop_alive p'"
proof (cases ev)
  case (Submit se i)
  with assms show ?thesis
    by (auto simp: step_def loop_alive_def split: if_splits go.splits dest: CreateBid_keeps)
next
  case (Handoff se i sched)
  with assms obtain b q where q: "iteration (RecvCase sched) (handed b p) = Some q"
    and p': "p' = q\<lparr>responses := responses q @ [Answered None]\<rparr>"
    using step_Handoff by blast
  have "loop_alive q" using iteration_alive[OF _ q] assms(1) by simp
  then show ?thesis by (simp add: p' loop_alive_def)
next
  case (Select r)
  with assms show ?thesis by (auto simp: step_def split: if_splits dest: iteration_alive)
next
  case (Elapse d)
  with assms show ?thesis by (auto simp: step_def loop_alive_def split: if_splits)
next
  case Exit
  with assms show ?thesis by (auto simp: step_def loop_alive_def split: if_splits)
qed

lemma step_status:
  assumes "status_cache_Active (Repository (bu p))" "loop_alive p" "step uv ev p = Some p'"
  shows "status_cache_Active (Repository (bu p'))"
proof (cases ev)
  case (Submit se i)
  with assms show ?thesis
    by (auto simp: step_def split: if_splits go.splits dest: CreateBid_keeps)
next
  case (Handoff se i sched)
  with assms obtain b q where q: "iteration (RecvCase sched) (handed b p) = Some q"
    and p': "p' = q\<lparr>responses := responses q @ [Answered None]\<rparr>"
    using step_Handoff by blast
  have "status_cache_Active (Repository (bu q))" using iteration_status[OF _ _ q] assms(1,2) by simp
  then show ?thesis by (simp add: p')
next
  case (Select r)
  with assms show ?thesis by (auto simp: step_def split: if_splits dest: iteration_status)
next
  case (Elapse d)
  with assms show ?thesis by (auto simp: step_def split: if_splits)
next
  case Exit
  with assms show ?thesis by (auto simp: step_def split: if_splits)
qed

lemma run_invariant:
  "loop_alive p \<Longrightarrow> status_cache_Active (Repository (bu p)) \<Longrightarrow> run uv evs p = Some p' \<Longrightarrow>
   loop_alive p' \<and> status_cache_Active (Repository (bu p'))"
proof (induction evs arbitrary: p)
  case Nil
  then show ?case by simp
next
  case (Cons ev evs)
  then obtain q where q: "step uv ev p = Some q" and r: "run uv evs q = Some p'"
    by (auto split: option.splits)
  from step_alive[OF Cons.prems(1) q] step_status[OF Cons.prems(2,1) q] Cons.IH r
  show ?case by blast
qed

lemma NewBidUseCase_invariant:
  "NewBidUseCase m i (NewBidRepository a) = Some p \<Longrightarrow> 
   loop_alive p \<and> status_cache_Active (Repository (bu p))"
  by (auto simp: NewBidUseCase_def NewBidRepository_def loop_alive_def status_cache_Active_def
           split: if_splits)






lemma run_alive:
  "loop_alive p \<Longrightarrow> run uv evs p = Some p' \<Longrightarrow> loop_alive p'"
proof (induction evs arbitrary: p)
  case Nil
  then show ?case by simp
next
  case (Cons ev evs)
  then obtain q where q: "step uv ev p = Some q" and r: "run uv evs q = Some p'"
    by (auto split: option.splits)
  from step_alive[OF Cons.prems(1) q] Cons.IH r show ?case by blast
qed

lemma NewBidUseCase_alive: "NewBidUseCase m i bd = Some p \<Longrightarrow> loop_alive p"
  by (auto simp: NewBidUseCase_def loop_alive_def split: if_splits)

lemma flush_CreateBidBatch:
  "flush tag sched p =
     map_option (\<lambda>(err, bd). p\<lparr>bu := (bu p)\<lparr>Repository := bd\<rparr>\<rparr>)
       (CreateBidBatch sched (bidBatch p) (Repository (bu p)))"
  by (simp add: flush_eq CreateBidBatch_iff)

lemma holds_Active_not_Completed:
  "list_all holds_Active ts \<Longrightarrow> AtDecision b (Some s) t \<in> set ts \<Longrightarrow> s \<noteq> Completed"
  by (auto simp: list_all_iff Active_def Completed_def)

lemma run_pool_empty: "run_pool sched ([], bd) = ([], bd)"
  unfolding run_pool_def by (induction sched) (auto simp: pool_step_def)










lemmas example_defs =
  example_uuid_Validate_def example_user_def example_auction_def five_minutes_def
  three_minutes_def example_bid_def example_env_def accept_all_def example_input_def
  example_submit_def example_process_def observe_def

lemmas model_defs =
  NewBidRepository_def NewBidUseCase_def bid_task_def insert_bid_def Let_def
  CreateBidBatch_def run_pool_def pool_step_def sequential_def
  Validate_def bid_entity_CreateBid_def send_def recv_def CreateBid_def
  flush_def reset_batch_def iteration_def step_def Active_def Completed_def
  NewNotFoundError_def NewBadRequestError_def lookups_def cached_def

section \<open>The claims\<close>

subsection \<open>C1: bids after the end of the auction\<close>

text \<open>
  C1 as the specification states it: a bid whose submission time is at or after the end
  time (start + configured duration) is rejected and not inserted, on a cache hit and on
  a cache miss alike. Two runs of the task show otherwise. On a miss the task compares
  no time: a bid made 100 seconds after the end of an auction that the lookup still
  reports as \<open>Active\<close> is inserted, and the cache is filled. On a hit the comparison is
  \<open>now.After(auctionEndTime)\<close>, which is strict and reads the clock of the task: a bid
  submitted and processed exactly at the end time is inserted.
\<close>

theorem C1_counterexample:
  "five_minutes \<le> Timestamp (example_bid 400000000000) \<and>
   bid_task (example_env Active 400000000000) (example_bid 400000000000) (NewBidRepository five_minutes) =
     (Inserted,
      \<lparr>auctionStatusMap = [example_auction \<mapsto> Active],
       auctionEndTimeMap = [example_auction \<mapsto> five_minutes],
       auctionInterval = five_minutes,
       Collection = [toMongo (example_bid 400000000000)],
       calls = [FindAuctionByIdCall example_auction, InsertOneCall (toMongo (example_bid 400000000000))]\<rparr>) \<and>
   five_minutes \<le> Timestamp (example_bid five_minutes) \<and>
   bid_task (example_env Active five_minutes) (example_bid five_minutes) example_cached =
     (Inserted, example_cached\<lparr>Collection := [toMongo (example_bid five_minutes)],
                               calls := [InsertOneCall (toMongo (example_bid five_minutes))]\<rparr>)"
  by (simp add: example_defs example_cached_def model_defs)

text \<open>
  C1 as amended: on a cache hit (both entries of the bid's auction are present), a bid
  whose task reads a clock strictly after the cached end time is rejected: the task
  returns with the repository exactly as it found it, so without any insert, lookup or
  log entry. This covers every bid submitted strictly after the end time, as long as the
  clock read by the task is not before the submission time of the bid.
\<close>

theorem C1_hit_rejects_after_end:
  assumes "auctionStatusMap bd (AuctionId b) = Some s"
      and "auctionEndTimeMap bd (AuctionId b) = Some t"
      and "t < Now e \<or> (t < Timestamp b \<and> Timestamp b \<le> Now e)"
  shows "bid_task e b bd = (RejectedClosed, bd)"
proof -
  from assms(3) have "t < Now e" by auto
  with assms(1,2) show ?thesis by (simp add: bid_task_def)
qed

theorem C1_hit_rejects_after_end_witness:
  "auctionStatusMap example_cached (AuctionId (example_bid 400000000000)) = Some Active \<and>
   auctionEndTimeMap example_cached (AuctionId (example_bid 400000000000)) = Some five_minutes \<and>
   five_minutes < Timestamp (example_bid 400000000000) \<and>
   Timestamp (example_bid 400000000000) \<le> Now (example_env Active 400000000000) \<and>
   bid_task (example_env Active 400000000000) (example_bid 400000000000) example_cached =
     (RejectedClosed, example_cached)"
proof -
  have h1: "auctionStatusMap example_cached (AuctionId (example_bid 400000000000)) = Some Active"
    and h2: "auctionEndTimeMap example_cached (AuctionId (example_bid 400000000000)) = Some five_minutes"
    and h3: "five_minutes < Timestamp (example_bid 400000000000)"
    and h4: "Timestamp (example_bid 400000000000) \<le> Now (example_env Active 400000000000)"
    by (simp_all add: example_defs example_cached_def model_defs)
  from h3 h4
  have h: "five_minutes < Now (example_env Active 400000000000) \<or>
           (five_minutes < Timestamp (example_bid 400000000000) \<and>
            Timestamp (example_bid 400000000000) \<le> Now (example_env Active 400000000000))"
    by blast
  from C1_hit_rejects_after_end[OF h1 h2 h] h1 h2 h3 h4 show ?thesis by simp
qed

subsection \<open>C2: one lookup on the first bid, none for later readers\<close>




subsection \<open>C3: what a turn of the aggregator loop does\<close>

text \<open>
  C3: whatever the current batch holds, a turn of the loop that receives a bid appends
  it; if the batch then has the configured maximum or more, the whole batch, the new
  bid included, goes to \<open>CreateBidBatch\<close>, the batch becomes empty and the timer
  is reset to the full interval; below the maximum nothing else changes. A turn taken
  on timer expiry gives the batch, whatever its size, to \<open>CreateBidBatch\<close>, empties
  it and resets the timer. So the batch is flushed by whichever of the two happens first.
\<close>

theorem C3_aggregator_turn:
  "(buf (bidChannel (bu p)) = b # rest \<longrightarrow>
      iteration (RecvCase sched) p =
        (if maxBatchSize (bu p) \<le> int (length (bidBatch p @ [b]))
         then map_option
                (\<lambda>(err, bd). p\<lparr>bu := (bu p)\<lparr>Repository := bd, timer := batchInsertInterval (bu p),
                                               bidChannel := (bidChannel (bu p))\<lparr>buf := rest\<rparr>\<rparr>,
                                  bidBatch := []\<rparr>)
                (CreateBidBatch sched (bidBatch p @ [b]) (Repository (bu p)))
         else Some (p\<lparr>bu := (bu p)\<lparr>bidChannel := (bidChannel (bu p))\<lparr>buf := rest\<rparr>\<rparr>,
                      bidBatch := bidBatch p @ [b]\<rparr>))) \<and>
   (timer (bu p) \<le> 0 \<longrightarrow>
      iteration (TimerCase sched) p =
        map_option
          (\<lambda>(err, bd). p\<lparr>bu := (bu p)\<lparr>Repository := bd, timer := batchInsertInterval (bu p)\<rparr>,
                            bidBatch := []\<rparr>)
          (CreateBidBatch sched (bidBatch p) (Repository (bu p))))"
  by (auto simp: iteration_item iteration_timer flush_CreateBidBatch enqueue_batch_def reset_batch_def
                 CreateBidBatch_iff split: option.splits)

theorem C3_aggregator_turn_witness:
  "buf (bidChannel (bu (example_process 1 [example_bid 1000] [] 0))) = example_bid 1000 # [] \<and>
   timer (bu (example_process 1 [example_bid 1000] [] 0)) \<le> 0 \<and>
   map_option observe
     (iteration (RecvCase (sequential accept_all 1)) (example_process 1 [example_bid 1000] [] 0)) =
     Some ([], [toMongo (example_bid 1000)],
           [FindAuctionByIdCall example_auction, InsertOneCall (toMongo (example_bid 1000))],
           False, Running, False) \<and>
   map_option (\<lambda>p. (bidBatch p, timer (bu p)))
     (iteration (RecvCase (sequential accept_all 1)) (example_process 1 [example_bid 1000] [] 0)) =
     Some ([], three_minutes) \<and>
   map_option (\<lambda>p. (bidBatch p, timer (bu p)))
     (iteration (RecvCase (sequential accept_all 1)) (example_process 5 [example_bid 1000] [] 0)) =
     Some ([example_bid 1000], 0) \<and>
   map_option (\<lambda>p. (bidBatch p, timer (bu p)))
     (iteration (TimerCase (sequential accept_all 1)) (example_process 5 [] [example_bid 1000] 0)) =
     Some ([], three_minutes)"
  using C3_aggregator_turn[of "example_process 1 [example_bid 1000] [] 0" "example_bid 1000" "[]"
          "sequential accept_all 1"]
        C3_aggregator_turn[of "example_process 5 [example_bid 1000] [] 0" "example_bid 1000" "[]"
          "sequential accept_all 1"]
        C3_aggregator_turn[of "example_process 5 [] [example_bid 1000] 0" "example_bid 1000" "[]"
          "sequential accept_all 1"]
  by (simp add: example_defs model_defs eval_nat_numeral)

subsection \<open>C4: the loop and the batch it has flushed\<close>

text \<open>
  C4 as the specification states it: on a flush the aggregator hands the batch off and
  goes on with its loop without waiting for the batch to be processed. The loop calls
  \<open>CreateBidBatch\<close> as a plain function, and that function ends with \<open>wg.Wait()\<close>:
  with a batch limit of 1 and a bid in the channel, the turn that flushes the bid has
  not ended as long as the task of the bid has taken only its first step, and the
  turn that has ended leaves the bid already stored.
\<close>

theorem C4_counterexample:
  "\<not> list_all is_Done
       (fst (run_pool one_step_only (map AtStatusRead [example_bid 1000], NewBidRepository five_minutes))) \<and>
   iteration (RecvCase one_step_only) (example_process 1 [example_bid 1000] [] three_minutes) = None \<and>
   map_option observe
     (iteration (RecvCase (sequential accept_all 1)) (example_process 1 [example_bid 1000] [] three_minutes)) =
     Some ([], [toMongo (example_bid 1000)],
           [FindAuctionByIdCall example_auction, InsertOneCall (toMongo (example_bid 1000))],
           False, Running, False)"
  by (simp add: example_defs one_step_only_def model_defs eval_nat_numeral)

text \<open>
  C4 as amended: on every flush, by size, by timer or at the drain, the turn of the
  loop ends exactly when every per-bid task of the flushed batch has returned. The
  aggregator takes no bid from the channel while a batch is being processed; bids
  submitted meanwhile wait in the buffer of the channel.
\<close>

theorem C4_turn_ends_when_batch_is_processed:
  "(buf (bidChannel (bu p)) = b # rest \<and> maxBatchSize (bu p) \<le> int (length (bidBatch p @ [b])) \<longrightarrow>
      (iteration (RecvCase sched) p \<noteq> None \<longleftrightarrow>
       list_all is_Done (fst (run_pool sched (map AtStatusRead (bidBatch p @ [b]), Repository (bu p)))))) \<and>
   (timer (bu p) \<le> 0 \<longrightarrow>
      (iteration (TimerCase sched) p \<noteq> None \<longleftrightarrow>
       list_all is_Done (fst (run_pool sched (map AtStatusRead (bidBatch p), Repository (bu p)))))) \<and>
   (buf (bidChannel (bu p)) = [] \<and> closed (bidChannel (bu p)) \<and> bidBatch p \<noteq> [] \<longrightarrow>
      (iteration (RecvCase sched) p \<noteq> None \<longleftrightarrow>
       list_all is_Done (fst (run_pool sched (map AtStatusRead (bidBatch p), Repository (bu p))))))"
proof -
  have size: "iteration (RecvCase sched) p \<noteq> None \<longleftrightarrow>
       list_all is_Done (fst (run_pool sched (map AtStatusRead (bidBatch p @ [b]), Repository (bu p))))"
    if "buf (bidChannel (bu p)) = b # rest" "maxBatchSize (bu p) \<le> int (length (bidBatch p @ [b]))"
    using that by (simp add: iteration_item flush_eq enqueue_batch_def)
  have tick: "iteration (TimerCase sched) p \<noteq> None \<longleftrightarrow>
       list_all is_Done (fst (run_pool sched (map AtStatusRead (bidBatch p), Repository (bu p))))"
    if "timer (bu p) \<le> 0"
    using that by (simp add: iteration_timer flush_eq)
  have drain: "iteration (RecvCase sched) p \<noteq> None \<longleftrightarrow>
       list_all is_Done (fst (run_pool sched (map AtStatusRead (bidBatch p), Repository (bu p))))"
    if "buf (bidChannel (bu p)) = []" "closed (bidChannel (bu p))" "bidBatch p \<noteq> []"
    using that by (simp add: iteration_def recv_def flush_eq)
  from size tick drain show ?thesis by blast
qed

theorem C4_turn_ends_when_batch_is_processed_witness:
  "buf (bidChannel (bu (example_process 1 [example_bid 1000] [] 0))) = example_bid 1000 # [] \<and>
   maxBatchSize (bu (example_process 1 [example_bid 1000] [] 0))
     \<le> int (length (bidBatch (example_process 1 [example_bid 1000] [] 0) @ [example_bid 1000])) \<and>
   timer (bu (example_process 1 [example_bid 1000] [] 0)) \<le> 0 \<and>
   iteration (RecvCase (sequential accept_all 1)) (example_process 1 [example_bid 1000] [] 0) \<noteq> None \<and>
   iteration (TimerCase one_step_only) (example_process 1 [example_bid 1000] [] 0) \<noteq> None \<and>
   buf (bidChannel (bu closed_process)) = [] \<and> closed (bidChannel (bu closed_process)) \<and>
   bidBatch closed_process \<noteq> [] \<and>
   iteration (RecvCase one_step_only) closed_process = None \<and>
   map_option observe (iteration (RecvCase (sequential accept_all 1)) closed_process) =
     Some ([example_bid 1000], [toMongo (example_bid 1000)],
           [FindAuctionByIdCall example_auction, InsertOneCall (toMongo (example_bid 1000))],
           True, Crashed ''close of closed channel'', True)"
  using C4_turn_ends_when_batch_is_processed[of "example_process 1 [example_bid 1000] [] 0"
          "example_bid 1000" "[]" "sequential accept_all 1"]
        C4_turn_ends_when_batch_is_processed[of "example_process 1 [example_bid 1000] [] 0"
          "example_bid 1000" "[]" one_step_only]
        C4_turn_ends_when_batch_is_processed[of closed_process "example_bid 1000" "[]" one_step_only]
  by (simp add: example_defs one_step_only_def closed_process_def model_defs close_def deferred_close_def eval_nat_numeral)

subsection \<open>C5: shutdown\<close>

text \<open>
  C5 says that the queue is closed once at shutdown and that the aggregator then
  flushes what is left, so that no pending bid is lost. The loop has the branch for it
  and the goroutine defers a \<open>close\<close>, but nothing closes the channel: \<open>main\<close>
  returns without closing it or waiting. With the default batch limit 5, one valid bid
  is submitted and received into the batch, then the process exits: the bid is still in
  \<open>bidBatch\<close>, the collection is empty, no call was made or logged, the channel is
  open, the loop had not returned, and no turn can follow.
\<close>

theorem C5_pending_bid_is_lost_at_exit:
  "map_option observe (example_run 5 shutdown_events) =
     Some ([example_bid 1000], [], [], False, Running, True) \<and>
   map_option (step example_uuid_Validate (Select (RecvCase (sequential accept_all 1))))
     (example_run 5 shutdown_events) = Some None \<and>
   map_option (step example_uuid_Validate (Select (TimerCase (sequential accept_all 1))))
     (example_run 5 shutdown_events) = Some None"
  by (simp add: example_defs example_run_def shutdown_events_def model_defs)

subsection \<open>C6: CreateBid\<close>

text \<open>
  C6 as the specification states it: a malformed input gets a validation error and
  nothing is enqueued; every other input is enqueued once and the call returns success
  without waiting. The channel has a capacity: when it is full, the send of a valid
  bid does not return until the aggregator, which is busy while a batch is being
  stored, receives again.
\<close>

theorem C6_counterexample:
  "Validate example_uuid_Validate (example_bid 1000) = None \<and>
   \<not> closed (bidChannel (bu full_process)) \<and>
   CreateBid example_uuid_Validate example_submit example_input (bu full_process) = Blocks"
  by (simp add: example_defs full_process_def model_defs)

text \<open>
  C6 as amended: on the open channel, a user id or an auction id that is not a valid
  UUID, or an amount that is not greater than 0, makes \<open>CreateBid\<close> return the
  validation error with the use case unchanged (nothing enqueued, also when the
  channel is full); otherwise, if the channel holds fewer bids than its capacity, the
  call appends exactly the one new bid to the channel and returns \<open>nil\<close>, leaving the
  repository as it was; if the channel is full the call blocks.
\<close>

theorem C6_CreateBid_validates_then_sends:
  assumes "\<not> closed (bidChannel u)"
  shows "CreateBid uv se i u =
     (if \<not> uv (dto_UserId i)
      then Returns (Some (NewBadRequestError ''user id is not a valid id''), u)
      else if \<not> uv (dto_AuctionId i)
      then Returns (Some (NewBadRequestError ''auction id is not a valid id''), u)
      else if dto_Amount i \<le> 0
      then Returns (Some (NewBadRequestError ''amount must be greater than 0''), u)
      else if int (length (buf (bidChannel u))) < cap (bidChannel u)
      then Returns (None,
             u\<lparr>bidChannel := (bidChannel u)\<lparr>buf := buf (bidChannel u) @
                 [\<lparr>Id = uuid_New se, UserId = dto_UserId i, AuctionId = dto_AuctionId i,
                   Amount = dto_Amount i, Timestamp = time_Now se\<rparr>]\<rparr>\<rparr>)
      else Blocks)"
  using assms
  by (simp add: CreateBid_def bid_entity_CreateBid_def Validate_def send_def Let_def)

theorem C6_CreateBid_validates_then_sends_witness:
  "\<not> closed (bidChannel (bu (example_process 5 [] [] three_minutes))) \<and>
   CreateBid example_uuid_Validate example_submit example_input (bu (example_process 5 [] [] three_minutes)) =
     Returns (None, bu (example_process 5 [example_bid 1000] [] three_minutes)) \<and>
   CreateBid example_uuid_Validate example_submit (example_input\<lparr>dto_Amount := 0\<rparr>)
       (bu (example_process 5 [] [] three_minutes)) =
     Returns (Some (InternalError ''amount must be greater than 0'' ''bad_request''),
              bu (example_process 5 [] [] three_minutes)) \<and>
   CreateBid example_uuid_Validate example_submit (example_input\<lparr>dto_UserId := ''bidder''\<rparr>)
       (bu full_process) =
     Returns (Some (InternalError ''user id is not a valid id'' ''bad_request''), bu full_process)"
  using C6_CreateBid_validates_then_sends[of "bu (example_process 5 [] [] three_minutes)"
          example_uuid_Validate example_submit example_input]
        C6_CreateBid_validates_then_sends[of "bu (example_process 5 [] [] three_minutes)"
          example_uuid_Validate example_submit "example_input\<lparr>dto_Amount := 0\<rparr>"]
        C6_CreateBid_validates_then_sends[of "bu full_process"
          example_uuid_Validate example_submit "example_input\<lparr>dto_UserId := ''bidder''\<rparr>"]
  by (simp add: example_defs full_process_def model_defs)

subsection \<open>C7: failures stay inside the task of their bid\<close>



subsection \<open>C8: flushing an empty batch\<close>

text \<open>
  C8: given the empty batch, \<open>CreateBidBatch\<close> returns \<open>nil\<close> at once and leaves the
  repository as it was, so with no insert and no lookup; and a turn of the loop taken
  on timer expiry with an empty batch changes nothing but the timer, which is reset.
\<close>

theorem C8_empty_flush_is_noop:
  "CreateBidBatch sched [] bd = Some (None, bd) \<and>
   (timer (bu p) \<le> 0 \<and> bidBatch p = [] \<longrightarrow>
      iteration (TimerCase sched) p = Some (p\<lparr>bu := (bu p)\<lparr>timer := batchInsertInterval (bu p)\<rparr>\<rparr>))"
proof -
  have e: "CreateBidBatch s [] d = Some (None, d)" for s d
    by (simp add: CreateBidBatch_def run_pool_empty)
  then show ?thesis
    by (auto simp: iteration_def flush_def reset_batch_def)
qed

theorem C8_empty_flush_is_noop_witness:
  "timer (bu (example_process 5 [] [] 0)) \<le> 0 \<and> bidBatch (example_process 5 [] [] 0) = [] \<and>
   CreateBidBatch one_step_only [] example_cached = Some (None, example_cached) \<and>
   iteration (TimerCase one_step_only) (example_process 5 [] [] 0) =
     Some (example_process 5 [] [] three_minutes)"
  using C8_empty_flush_is_noop[of one_step_only example_cached "example_process 5 [] [] 0"]
  by (simp add: example_process_def)

subsection \<open>C9: the status cache holds nothing but Active\<close>

text \<open>
  C9: in the process as \<open>main\<close> builds it, after any events, every status in the
  status cache is \<open>Active\<close>; this also holds at every moment of any batch processed
  from there, under every interleaving of its tasks, because the only write stores the
  status of an auction that the task has just found to be \<open>Active\<close>. Hence no task
  ever comes to the hit/miss decision holding a cached status \<open>Completed\<close>.
\<close>

theorem C9_status_cache_holds_only_Active:
  assumes "NewBidUseCase maxBatch interval (NewBidRepository auctionDuration) = Some p0"
      and "run uv evs p0 = Some p"
  shows "(\<forall>auctionId s. auctionStatusMap (Repository (bu p)) auctionId = Some s \<longrightarrow> s = Active) \<and>
         (\<forall>sched bids auctionId s.
            auctionStatusMap (snd (run_pool sched (map AtStatusRead bids, Repository (bu p)))) auctionId = Some s
            \<longrightarrow> s = Active) \<and>
         (\<forall>sched bids b s t.
            AtDecision b (Some s) t \<in> set (fst (run_pool sched (map AtStatusRead bids, Repository (bu p))))
            \<longrightarrow> s \<noteq> Completed)"
proof -
  from NewBidUseCase_invariant[OF assms(1)] run_invariant[OF _ _ assms(2)]
  have ok: "status_cache_Active (Repository (bu p))" by blast
  have a: "status_cache_Active (snd (run_pool sched (map AtStatusRead bids, Repository (bu p))))"
    and b: "list_all holds_Active (fst (run_pool sched (map AtStatusRead bids, Repository (bu p))))"
    for sched bids
    using status_run_pool[OF ok holds_Active_fresh] by blast+
  from ok have 1: "\<forall>auctionId s. auctionStatusMap (Repository (bu p)) auctionId = Some s \<longrightarrow> s = Active"
    by (auto simp: status_cache_Active_def ran_def)
  from a have 2: "\<forall>sched bids auctionId s.
            auctionStatusMap (snd (run_pool sched (map AtStatusRead bids, Repository (bu p)))) auctionId = Some s
            \<longrightarrow> s = Active"
    by (auto simp: status_cache_Active_def ran_def)
  from b have 3: "\<forall>sched bids b s t.
            AtDecision b (Some s) t \<in> set (fst (run_pool sched (map AtStatusRead bids, Repository (bu p))))
            \<longrightarrow> s \<noteq> Completed"
    using holds_Active_not_Completed by blast
  from 1 2 3 show ?thesis by blast
qed

theorem C9_status_cache_holds_only_Active_witness:
  "NewBidUseCase 1 three_minutes (NewBidRepository five_minutes) =
     Some (example_process 1 [] [] three_minutes) \<and>
   run example_uuid_Validate example_events (example_process 1 [] [] three_minutes) \<noteq> None \<and>
   map_option (\<lambda>p. auctionStatusMap (Repository (bu p)) example_auction)
     (run example_uuid_Validate example_events (example_process 1 [] [] three_minutes)) =
     Some (Some Active) \<and>
   map_option (\<lambda>p. fst (run_pool (replicate 3 (0, example_env Completed 2000))
                            (map AtStatusRead [example_bid 3000], Repository (bu p))))
     (run example_uuid_Validate example_events (example_process 1 [] [] three_minutes)) =
     Some [Done Inserted]"
proof -
  have h1: "NewBidUseCase 1 three_minutes (NewBidRepository five_minutes) =
              Some (example_process 1 [] [] three_minutes)"
    by (simp add: example_defs example_events_def model_defs)
  have ne: "run example_uuid_Validate example_events (example_process 1 [] [] three_minutes) \<noteq> None"
    by (simp add: example_defs example_events_def model_defs eval_nat_numeral)
  then obtain p where h2: "run example_uuid_Validate example_events (example_process 1 [] [] three_minutes) = Some p"
    by blast
  have v: "map_option (\<lambda>p. auctionStatusMap (Repository (bu p)) example_auction)
             (run example_uuid_Validate example_events (example_process 1 [] [] three_minutes)) =
           Some (Some Active)"
    by (simp add: example_defs example_events_def model_defs eval_nat_numeral)
  have w: "map_option (\<lambda>p. fst (run_pool (replicate 3 (0, example_env Completed 2000))
                            (map AtStatusRead [example_bid 3000], Repository (bu p))))
     (run example_uuid_Validate example_events (example_process 1 [] [] three_minutes)) =
     Some [Done Inserted]"
    by (simp add: example_defs example_events_def model_defs eval_nat_numeral)
  from C9_status_cache_holds_only_Active[OF h1 h2] h1 ne v w show ?thesis by blast
qed

subsection \<open>C10: the channel is never closed\<close>

text \<open>
  C10: in the process as \<open>NewBidUseCase\<close> starts it, after any events, the channel is
  open and the loop of the goroutine has not returned: the only \<open>close\<close> is the
  deferred one, which runs when the loop returns, and the loop returns only in the
  branch taken when a receive finds the channel closed. So a receive never reports a
  closed channel, the drain branch is never taken and the loop never ends.
\<close>

theorem C10_channel_is_never_closed:
  assumes "NewBidUseCase maxBatch interval bd = Some p0"
      and "run uv evs p0 = Some p"
  shows "\<not> closed (bidChannel (bu p)) \<and> goroutine p = Running \<and>
         (\<forall>ch. recv (bidChannel (bu p)) \<noteq> Returns (None, ch))"
proof -
  from run_alive[OF NewBidUseCase_alive[OF assms(1)] assms(2)]
  have "loop_alive p" .
  then show ?thesis
    by (auto simp: loop_alive_def recv_def split: list.splits)
qed

theorem C10_channel_is_never_closed_witness:
  "NewBidUseCase 5 three_minutes (NewBidRepository five_minutes) =
     Some (example_process 5 [] [] three_minutes) \<and>
   map_option observe (run example_uuid_Validate shutdown_events (example_process 5 [] [] three_minutes)) =
     Some ([example_bid 1000], [], [], False, Running, True)"
proof -
  have h1: "NewBidUseCase 5 three_minutes (NewBidRepository five_minutes) =
              Some (example_process 5 [] [] three_minutes)"
    by (simp add: example_defs shutdown_events_def model_defs)
  have v: "map_option observe (run example_uuid_Validate shutdown_events (example_process 5 [] [] three_minutes)) =
     Some ([example_bid 1000], [], [], False, Running, True)"
    by (simp add: example_defs shutdown_events_def model_defs)
  then obtain p where h2: "run example_uuid_Validate shutdown_events (example_process 5 [] [] three_minutes) = Some p"
    by blast
  from C10_channel_is_never_closed[OF h1 h2] h1 v show ?thesis by blast
qed

end
